theory Spec2Isabelle
  imports Main
begin

section \<open>The things service of Mainflux: authorization through two caches\<close>

text \<open>
  This theory embeds the part of \<^verbatim>\<open>things/service.go\<close> that answers the two
  data-plane queries \<^verbatim>\<open>CanAccess\<close> and \<^verbatim>\<open>Identify\<close>, and the mutation paths that
  invalidate cache entries (\<^verbatim>\<open>Disconnect\<close>, \<^verbatim>\<open>RemoveThing\<close>, \<^verbatim>\<open>RemoveChannel\<close>),
  together with \<^verbatim>\<open>UpdateKey\<close>, a mutation path that touches no cache.

  Go strings are \<open>string\<close>. A Go result \<^verbatim>\<open>(string, error)\<close> is a value of
  \<open>error + string\<close> (\<open>Inl\<close> the error: the code never reads the string when the error
  is not nil), and a Go result \<^verbatim>\<open>error\<close> is an \<open>error option\<close> (\<open>None\<close> is \<^verbatim>\<open>nil\<close>).
\<close>

subsection \<open>Errors\<close>

text \<open>
  The four error values the package declares, and \<open>ErrOther\<close> for any other error value
  that an implementation of one of the interfaces may return (a driver error, a timeout).
\<close>

datatype error =
    ErrMalformedEntity
  | ErrUnauthorizedAccess
  | ErrNotFound
  | ErrConflict
  | ErrOther string

subsection \<open>The interfaces held by the service\<close>

text \<open>
  \<^verbatim>\<open>thingsService\<close> holds five collaborators behind interfaces whose declarations and
  implementations are not part of \<^verbatim>\<open>service.go\<close>; each is a record of the methods the
  embedded functions call, and every theorem below that does not say otherwise holds for
  every implementation. The two caches act on a cache store of type \<open>'c\<close>; the users
  client and the two repositories act on a backend store of type \<open>'r\<close>. The service
  discards whatever \<^verbatim>\<open>Save\<close>, \<^verbatim>\<open>Connect\<close>, \<^verbatim>\<open>Disconnect\<close> and \<^verbatim>\<open>Remove\<close> of a cache
  return, so these are modelled by their effect on the store alone.
\<close>

record 'c ThingCache =
  thingCache_Save :: "string \<Rightarrow> string \<Rightarrow> 'c \<Rightarrow> 'c"
  thingCache_ID :: "string \<Rightarrow> 'c \<Rightarrow> (error + string) \<times> 'c"
  thingCache_Remove :: "string \<Rightarrow> 'c \<Rightarrow> 'c"

record 'c ChannelCache =
  channelCache_Connect :: "string \<Rightarrow> string \<Rightarrow> 'c \<Rightarrow> 'c"
  channelCache_HasThing :: "string \<Rightarrow> string \<Rightarrow> 'c \<Rightarrow> bool \<times> 'c"
  channelCache_Disconnect :: "string \<Rightarrow> string \<Rightarrow> 'c \<Rightarrow> 'c"
  channelCache_Remove :: "string \<Rightarrow> 'c \<Rightarrow> 'c"

record 'r UsersServiceClient =
  users_Identify :: "string \<Rightarrow> 'r \<Rightarrow> (error + string) \<times> 'r"

record 'r ThingRepository =
  things_UpdateKey :: "string \<Rightarrow> string \<Rightarrow> string \<Rightarrow> 'r \<Rightarrow> error option \<times> 'r"
  things_RetrieveByKey :: "string \<Rightarrow> 'r \<Rightarrow> (error + string) \<times> 'r"
  things_Remove :: "string \<Rightarrow> string \<Rightarrow> 'r \<Rightarrow> error option \<times> 'r"

record 'r ChannelRepository =
  channels_Remove :: "string \<Rightarrow> string \<Rightarrow> 'r \<Rightarrow> error option \<times> 'r"
  channels_Disconnect :: "string \<Rightarrow> string \<Rightarrow> string \<Rightarrow> 'r \<Rightarrow> error option \<times> 'r"
  channels_HasThing :: "string \<Rightarrow> string \<Rightarrow> 'r \<Rightarrow> (error + string) \<times> 'r"

record ('c, 'r) thingsService =
  users :: "'r UsersServiceClient"
  things :: "'r ThingRepository"
  channels :: "'r ChannelRepository"
  channelCache :: "'c ChannelCache"
  thingCache :: "'c ThingCache"

subsection \<open>The calls a run makes\<close>

text \<open>
  Every call through an interface is recorded, in order, with its arguments and with the
  value it returned where the service reads one.
\<close>

datatype call =
    CallUsersIdentify string "error + string"
  | CallThingsUpdateKey string string string "error option"
  | CallThingsRetrieveByKey string "error + string"
  | CallThingsRemove string string "error option"
  | CallChannelsRemove string string "error option"
  | CallChannelsDisconnect string string string "error option"
  | CallChannelsHasThing string string "error + string"
  | CallThingCacheSave string string
  | CallThingCacheID string "error + string"
  | CallThingCacheRemove string
  | CallChannelCacheConnect string string
  | CallChannelCacheHasThing string string bool
  | CallChannelCacheDisconnect string string
  | CallChannelCacheRemove string

record ('c, 'r) world =
  caches :: 'c
  backend :: 'r
  calls :: "call list"

definition cache_read ::
  "('c \<Rightarrow> 'a \<times> 'c) \<Rightarrow> ('a \<Rightarrow> call) \<Rightarrow> ('c, 'r) world \<Rightarrow> 'a \<times> ('c, 'r) world" where
  "cache_read f ev s =
     (case f (caches s) of (a, c) \<Rightarrow> (a, s\<lparr>caches := c, calls := calls s @ [ev a]\<rparr>))"

definition cache_write ::
  "('c \<Rightarrow> 'c) \<Rightarrow> call \<Rightarrow> ('c, 'r) world \<Rightarrow> ('c, 'r) world" where
  "cache_write f ev s = s\<lparr>caches := f (caches s), calls := calls s @ [ev]\<rparr>"

definition repo_call ::
  "('r \<Rightarrow> 'a \<times> 'r) \<Rightarrow> ('a \<Rightarrow> call) \<Rightarrow> ('c, 'r) world \<Rightarrow> 'a \<times> ('c, 'r) world" where
  "repo_call f ev s =
     (case f (backend s) of (a, r) \<Rightarrow> (a, s\<lparr>backend := r, calls := calls s @ [ev a]\<rparr>))"

text \<open>The calls made between a state and a later one.\<close>

definition new_calls :: "('c, 'r) world \<Rightarrow> ('c, 'r) world \<Rightarrow> call list" where
  "new_calls s s' = drop (length (calls s)) (calls s')"

fun is_repository_call :: "call \<Rightarrow> bool" where
  "is_repository_call (CallThingsUpdateKey _ _ _ _) = True"
| "is_repository_call (CallThingsRetrieveByKey _ _) = True"
| "is_repository_call (CallThingsRemove _ _ _) = True"
| "is_repository_call (CallChannelsRemove _ _ _) = True"
| "is_repository_call (CallChannelsDisconnect _ _ _ _) = True"
| "is_repository_call (CallChannelsHasThing _ _ _) = True"
| "is_repository_call _ = False"

fun is_cache_write :: "call \<Rightarrow> bool" where
  "is_cache_write (CallThingCacheSave _ _) = True"
| "is_cache_write (CallThingCacheRemove _) = True"
| "is_cache_write (CallChannelCacheConnect _ _) = True"
| "is_cache_write (CallChannelCacheDisconnect _ _) = True"
| "is_cache_write (CallChannelCacheRemove _) = True"
| "is_cache_write _ = False"

subsection \<open>The service\<close>

text \<open>
  \<^verbatim>\<open>UpdateKey\<close>: identify the token's owner (a call bounded by a one-second timeout, so
  it may fail), then update the key in the repository. No cache is touched.
\<close>

definition UpdateKey ::
  "('c, 'r) thingsService \<Rightarrow> string \<Rightarrow> string \<Rightarrow> string \<Rightarrow> ('c, 'r) world
     \<Rightarrow> error option \<times> ('c, 'r) world" where
  "UpdateKey ts token ident key s =
     (case repo_call (users_Identify (users ts) token) (CallUsersIdentify token) s of
        (Inl err, s1) \<Rightarrow> (Some ErrUnauthorizedAccess, s1)
      | (Inr owner, s1) \<Rightarrow>
          repo_call (things_UpdateKey (things ts) owner ident key)
            (CallThingsUpdateKey owner ident key) s1)"

text \<open>
  \<^verbatim>\<open>RemoveThing\<close>: identify the owner, call \<^verbatim>\<open>thingCache.Remove(id)\<close>, then return what
  \<^verbatim>\<open>things.Remove(owner, id)\<close> returns.
\<close>

definition RemoveThing ::
  "('c, 'r) thingsService \<Rightarrow> string \<Rightarrow> string \<Rightarrow> ('c, 'r) world
     \<Rightarrow> error option \<times> ('c, 'r) world" where
  "RemoveThing ts token ident s =
     (case repo_call (users_Identify (users ts) token) (CallUsersIdentify token) s of
        (Inl err, s1) \<Rightarrow> (Some ErrUnauthorizedAccess, s1)
      | (Inr owner, s1) \<Rightarrow>
          repo_call (things_Remove (things ts) owner ident) (CallThingsRemove owner ident)
            (cache_write (thingCache_Remove (thingCache ts) ident)
               (CallThingCacheRemove ident) s1))"

text \<open>
  \<^verbatim>\<open>RemoveChannel\<close>: identify the owner, call \<^verbatim>\<open>channelCache.Remove(id)\<close>, then return
  what \<^verbatim>\<open>channels.Remove(owner, id)\<close> returns.
\<close>

definition RemoveChannel ::
  "('c, 'r) thingsService \<Rightarrow> string \<Rightarrow> string \<Rightarrow> ('c, 'r) world
     \<Rightarrow> error option \<times> ('c, 'r) world" where
  "RemoveChannel ts token ident s =
     (case repo_call (users_Identify (users ts) token) (CallUsersIdentify token) s of
        (Inl err, s1) \<Rightarrow> (Some ErrUnauthorizedAccess, s1)
      | (Inr owner, s1) \<Rightarrow>
          repo_call (channels_Remove (channels ts) owner ident) (CallChannelsRemove owner ident)
            (cache_write (channelCache_Remove (channelCache ts) ident)
               (CallChannelCacheRemove ident) s1))"

text \<open>
  \<^verbatim>\<open>Disconnect\<close>: identify the owner, call \<^verbatim>\<open>channelCache.Disconnect(chanID, thingID)\<close>,
  then return what \<^verbatim>\<open>channels.Disconnect(owner, chanID, thingID)\<close> returns.
\<close>

definition Disconnect ::
  "('c, 'r) thingsService \<Rightarrow> string \<Rightarrow> string \<Rightarrow> string \<Rightarrow> ('c, 'r) world
     \<Rightarrow> error option \<times> ('c, 'r) world" where
  "Disconnect ts token chanID thingID s =
     (case repo_call (users_Identify (users ts) token) (CallUsersIdentify token) s of
        (Inl err, s1) \<Rightarrow> (Some ErrUnauthorizedAccess, s1)
      | (Inr owner, s1) \<Rightarrow>
          repo_call (channels_Disconnect (channels ts) owner chanID thingID)
            (CallChannelsDisconnect owner chanID thingID)
            (cache_write (channelCache_Disconnect (channelCache ts) chanID thingID)
               (CallChannelCacheDisconnect chanID thingID) s1))"

text \<open>
  \<^verbatim>\<open>hasThing\<close>: the lookup in the two caches. A miss of the thing cache returns the
  cache's own error; a thing the channel cache does not report connected returns
  \<open>ErrUnauthorizedAccess\<close>.
\<close>

definition hasThing ::
  "('c, 'r) thingsService \<Rightarrow> string \<Rightarrow> string \<Rightarrow> ('c, 'r) world
     \<Rightarrow> (error + string) \<times> ('c, 'r) world" where
  "hasThing ts chanID key s =
     (case cache_read (thingCache_ID (thingCache ts) key) (CallThingCacheID key) s of
        (Inl err, s1) \<Rightarrow> (Inl err, s1)
      | (Inr thingID, s1) \<Rightarrow>
          (case cache_read (channelCache_HasThing (channelCache ts) chanID thingID)
                  (CallChannelCacheHasThing chanID thingID) s1 of
             (connected, s2) \<Rightarrow>
               if \<not> connected then (Inl ErrUnauthorizedAccess, s2) else (Inr thingID, s2)))"

text \<open>
  \<^verbatim>\<open>CanAccess\<close>: return what \<^verbatim>\<open>hasThing\<close> found; otherwise ask the channel repository,
  deny when it fails, and on success save the key, mark the connection and return the
  thing's identifier.
\<close>

definition CanAccess ::
  "('c, 'r) thingsService \<Rightarrow> string \<Rightarrow> string \<Rightarrow> ('c, 'r) world
     \<Rightarrow> (error + string) \<times> ('c, 'r) world" where
  "CanAccess ts chanID key s =
     (case hasThing ts chanID key s of
        (Inr thingID, s1) \<Rightarrow> (Inr thingID, s1)
      | (Inl err, s1) \<Rightarrow>
          (case repo_call (channels_HasThing (channels ts) chanID key)
                  (CallChannelsHasThing chanID key) s1 of
             (Inl err', s2) \<Rightarrow> (Inl ErrUnauthorizedAccess, s2)
           | (Inr thingID, s2) \<Rightarrow>
               (Inr thingID,
                cache_write (channelCache_Connect (channelCache ts) chanID thingID)
                  (CallChannelCacheConnect chanID thingID)
                  (cache_write (thingCache_Save (thingCache ts) key thingID)
                     (CallThingCacheSave key thingID) s2))))"

text \<open>
  \<^verbatim>\<open>Identify\<close>: return the identifier the thing cache holds for the key; otherwise ask the
  thing repository, deny when it fails, and on success save the key and return the
  identifier.
\<close>

definition Identify ::
  "('c, 'r) thingsService \<Rightarrow> string \<Rightarrow> ('c, 'r) world \<Rightarrow> (error + string) \<times> ('c, 'r) world" where
  "Identify ts key s =
     (case cache_read (thingCache_ID (thingCache ts) key) (CallThingCacheID key) s of
        (Inr ident, s1) \<Rightarrow> (Inr ident, s1)
      | (Inl err, s1) \<Rightarrow>
          (case repo_call (things_RetrieveByKey (things ts) key)
                  (CallThingsRetrieveByKey key) s1 of
             (Inl err', s2) \<Rightarrow> (Inl ErrUnauthorizedAccess, s2)
           | (Inr ident, s2) \<Rightarrow>
               (Inr ident,
                cache_write (thingCache_Save (thingCache ts) key ident)
                  (CallThingCacheSave key ident) s2)))"

subsection \<open>In-memory caches and repositories\<close>

text \<open>
  The implementations of the cache and repository interfaces are missing from the
  sources. The in-memory ones below follow the contracts of the specification and are
  the concrete instance at which the theorems are evaluated. The cache store holds the
  key cache, from bearer key to thing identifier, and the membership cache, a set of
  (channel, thing) pairs.
\<close>

record cacheStore =
  keyCache :: "string \<rightharpoonup> string"
  membershipCache :: "(string \<times> string) set"

text \<open>
  Modelled from the spec: the implementation of \<^verbatim>\<open>ThingCache\<close> is missing. \<^verbatim>\<open>ID\<close> is a
  lookup without side effect that fails on a miss; \<^verbatim>\<open>Save\<close> overwrites any prior
  identifier of the key; \<^verbatim>\<open>Remove\<close> drops every entry whose value is the identifier.
\<close>

definition memThingCache :: "cacheStore ThingCache" where
  "memThingCache =
     \<lparr>thingCache_Save = (\<lambda>key ident c. c\<lparr>keyCache := (keyCache c)(key \<mapsto> ident)\<rparr>),
      thingCache_ID = (\<lambda>key c.
         (case keyCache c key of None \<Rightarrow> Inl ErrNotFound | Some ident \<Rightarrow> Inr ident, c)),
      thingCache_Remove = (\<lambda>ident c.
         c\<lparr>keyCache := (\<lambda>k. if keyCache c k = Some ident then None else keyCache c k)\<rparr>)\<rparr>"

text \<open>
  Modelled from the spec: the implementation of \<^verbatim>\<open>ChannelCache\<close> is missing.
  \<^verbatim>\<open>HasThing\<close> is membership of the pair, without side effect; \<^verbatim>\<open>Connect\<close> inserts the
  pair; \<^verbatim>\<open>Disconnect\<close> deletes it; \<^verbatim>\<open>Remove\<close> deletes every pair of the channel.
\<close>

definition memChannelCache :: "cacheStore ChannelCache" where
  "memChannelCache =
     \<lparr>channelCache_Connect = (\<lambda>chanID thingID c.
         c\<lparr>membershipCache := insert (chanID, thingID) (membershipCache c)\<rparr>),
      channelCache_HasThing = (\<lambda>chanID thingID c. ((chanID, thingID) \<in> membershipCache c, c)),
      channelCache_Disconnect = (\<lambda>chanID thingID c.
         c\<lparr>membershipCache := membershipCache c - {(chanID, thingID)}\<rparr>),
      channelCache_Remove = (\<lambda>chanID c.
         c\<lparr>membershipCache := Set.filter (\<lambda>p. fst p \<noteq> chanID) (membershipCache c)\<rparr>)\<rparr>"

text \<open>
  The registry behind the users service and the two repositories: the owner of each
  token, the (identifier, key) pair of each thing, the set of (channel, thing)
  connections, and whether the repositories can be reached.
\<close>

record registry =
  owners :: "string \<rightharpoonup> string"
  thingKeys :: "(string \<times> string) list"
  connections :: "(string \<times> string) set"
  reachable :: bool

text \<open>The identifier of the first thing that has the key.\<close>

definition byKey :: "registry \<Rightarrow> string \<Rightarrow> string option" where
  "byKey r key = map_option fst (find (\<lambda>p. snd p = key) (thingKeys r))"

text \<open>
  Modelled from the spec: the users service is an external collaborator, missing from
  the sources. It answers with the owner of a token and refuses an unknown token.
\<close>

definition memUsers :: "registry UsersServiceClient" where
  "memUsers =
     \<lparr>users_Identify = (\<lambda>token r.
         (case owners r token of
            None \<Rightarrow> Inl ErrUnauthorizedAccess
          | Some owner \<Rightarrow> Inr owner, r))\<rparr>"

text \<open>
  Modelled from the spec: the implementation of \<^verbatim>\<open>ThingRepository\<close> is missing. While
  the registry is not reachable every call fails and changes nothing. Lookup by key
  fails with \<open>ErrNotFound\<close> when no thing has the key; \<^verbatim>\<open>UpdateKey\<close> replaces the key of
  an existing thing; \<^verbatim>\<open>Remove\<close> deletes the thing. Ownership is not checked.
\<close>

definition memThings :: "registry ThingRepository" where
  "memThings =
     \<lparr>things_UpdateKey = (\<lambda>owner ident key r.
         if \<not> reachable r then (Some (ErrOther ''unavailable''), r)
         else if ident \<notin> fst ` set (thingKeys r) then (Some ErrNotFound, r)
         else (None,
               r\<lparr>thingKeys := map (\<lambda>p. if fst p = ident then (ident, key) else p) (thingKeys r)\<rparr>)),
      things_RetrieveByKey = (\<lambda>key r.
         (if \<not> reachable r then Inl (ErrOther ''unavailable'')
          else case byKey r key of None \<Rightarrow> Inl ErrNotFound | Some ident \<Rightarrow> Inr ident, r)),
      things_Remove = (\<lambda>owner ident r.
         if \<not> reachable r then (Some (ErrOther ''unavailable''), r)
         else (None, r\<lparr>thingKeys := filter (\<lambda>p. fst p \<noteq> ident) (thingKeys r)\<rparr>))\<rparr>"

text \<open>
  Modelled from the spec: the implementation of \<^verbatim>\<open>ChannelRepository\<close> is missing. While
  the registry is not reachable every call fails and changes nothing. \<^verbatim>\<open>HasThing\<close>
  returns the identifier of the thing that has the key when that thing is connected to
  the channel, and fails with \<open>ErrNotFound\<close> when no thing has the key or the thing is
  not connected; \<^verbatim>\<open>Disconnect\<close> deletes a connection that exists; \<^verbatim>\<open>Remove\<close> deletes
  the channel's connections. Ownership is not checked.
\<close>

definition memChannels :: "registry ChannelRepository" where
  "memChannels =
     \<lparr>channels_Remove = (\<lambda>owner chanID r.
         if \<not> reachable r then (Some (ErrOther ''unavailable''), r)
         else (None, r\<lparr>connections := Set.filter (\<lambda>p. fst p \<noteq> chanID) (connections r)\<rparr>)),
      channels_Disconnect = (\<lambda>owner chanID thingID r.
         if \<not> reachable r then (Some (ErrOther ''unavailable''), r)
         else if (chanID, thingID) \<notin> connections r then (Some ErrNotFound, r)
         else (None, r\<lparr>connections := connections r - {(chanID, thingID)}\<rparr>)),
      channels_HasThing = (\<lambda>chanID key r.
         (if \<not> reachable r then Inl (ErrOther ''unavailable'')
          else case byKey r key of
                 None \<Rightarrow> Inl ErrNotFound
               | Some thingID \<Rightarrow>
                   if (chanID, thingID) \<in> connections r then Inr thingID else Inl ErrNotFound,
          r))\<rparr>"

text \<open>The service over the in-memory caches and repositories.\<close>

definition memService :: "(cacheStore, registry) thingsService" where
  "memService =
     \<lparr>users = memUsers, things = memThings, channels = memChannels,
      channelCache = memChannelCache, thingCache = memThingCache\<rparr>"

text \<open>
  The scenario of the specification: thing \<open>t1\<close> has key \<open>k1\<close> and is connected to
  channel \<open>c1\<close>; token \<open>tok\<close> belongs to \<open>alice\<close>. \<open>cold\<close> starts with empty caches.
\<close>

definition registry1 :: registry where
  "registry1 =
     \<lparr>owners = [''tok'' \<mapsto> ''alice''], thingKeys = [(''t1'', ''k1'')],
      connections = {(''c1'', ''t1'')}, reachable = True\<rparr>"

definition noCache :: cacheStore where
  "noCache = \<lparr>keyCache = Map.empty, membershipCache = {}\<rparr>"

definition cold :: "(cacheStore, registry) world" where
  "cold = \<lparr>caches = noCache, backend = registry1, calls = []\<rparr>"

text \<open>The same world while the repositories cannot be reached.\<close>

definition unreachable :: "(cacheStore, registry) world \<Rightarrow> (cacheStore, registry) world" where
  "unreachable s = s\<lparr>backend := (backend s)\<lparr>reachable := False\<rparr>\<rparr>"

text \<open>The world after one cold \<^verbatim>\<open>CanAccess\<close> of channel \<open>c1\<close> with key \<open>k1\<close>.\<close>

definition warm :: "(cacheStore, registry) world" where
  "warm = snd (CanAccess memService ''c1'' ''k1'' cold)"

text \<open>
  The world after a cold \<^verbatim>\<open>Identify\<close> of key \<open>k1\<close> followed by the owner's
  \<^verbatim>\<open>UpdateKey\<close> that gives thing \<open>t1\<close> the new key \<open>k2\<close>.
\<close>

definition rotated :: "(cacheStore, registry) world" where
  "rotated = snd (UpdateKey memService ''tok'' ''t1'' ''k2'' (snd (Identify memService ''k1'' cold)))"

text \<open>
  A second scenario: things \<open>t1\<close> (key \<open>k1\<close>) and \<open>t2\<close> (key \<open>k2\<close>) are both connected
  to channel \<open>c1\<close>. \<open>reassigned\<close> is the world after a cold \<^verbatim>\<open>CanAccess\<close> of \<open>c1\<close> with
  \<open>k1\<close>, followed by the owner's two \<^verbatim>\<open>UpdateKey\<close> calls that give \<open>t1\<close> the new key
  \<open>k9\<close> and then give \<open>t2\<close> the key \<open>k1\<close>.
\<close>

definition registry2 :: registry where
  "registry2 =
     \<lparr>owners = [''tok'' \<mapsto> ''alice''], thingKeys = [(''t1'', ''k1''), (''t2'', ''k2'')],
      connections = {(''c1'', ''t1''), (''c1'', ''t2'')}, reachable = True\<rparr>"

definition reassigned :: "(cacheStore, registry) world" where
  "reassigned =
     snd (UpdateKey memService ''tok'' ''t2'' ''k1''
       (snd (UpdateKey memService ''tok'' ''t1'' ''k9''
         (snd (CanAccess memService ''c1'' ''k1''
            \<lparr>caches = noCache, backend = registry2, calls = []\<rparr>)))))"


section \<open>Properties\<close>

lemmas run_defs = cache_read_def cache_write_def repo_call_def new_calls_def

lemmas service_defs = CanAccess_def Identify_def hasThing_def UpdateKey_def Disconnect_def
  RemoveThing_def RemoveChannel_def

lemmas scenario_defs = memService_def memUsers_def memThings_def memChannels_def
  memChannelCache_def memThingCache_def byKey_def registry1_def noCache_def cold_def
  unreachable_def warm_def rotated_def registry2_def reassigned_def

subsection \<open>The contract of the in-memory caches\<close>

text \<open>
  The facts about a cache implementation that the warm-cache theorems take as
  hypotheses, at the in-memory caches: a lookup leaves the store as it was, a saved key
  resolves to the saved identifier, marking a connection does not change what a key
  resolves to, a pair marked connected is reported connected, and a pair that was
  disconnected is reported not connected.
\<close>

lemma mem_ID_pure: "snd (thingCache_ID (thingCache memService) k c) = c"
  by (simp add: memService_def memThingCache_def)

lemma mem_HasThing_pure: "snd (channelCache_HasThing (channelCache memService) ch i c) = c"
  by (simp add: memService_def memChannelCache_def)

lemma mem_Save_resolves:
  "fst (thingCache_ID (thingCache memService) k (thingCache_Save (thingCache memService) k i c))
     = Inr i"
  by (simp add: memService_def memThingCache_def)

lemma mem_Connect_keeps_keys:
  "fst (thingCache_ID (thingCache memService) k
          (channelCache_Connect (channelCache memService) ch i c))
     = fst (thingCache_ID (thingCache memService) k c)"
  by (simp add: memService_def memThingCache_def memChannelCache_def)

lemma mem_Connect_connected:
  "fst (channelCache_HasThing (channelCache memService) ch i
          (channelCache_Connect (channelCache memService) ch i c))"
  by (simp add: memService_def memChannelCache_def)


lemma cold_CanAccess: "CanAccess memService ''c1'' ''k1'' cold = (Inr ''t1'', warm)"
  by (simp add: prod_eq_iff service_defs run_defs scenario_defs)

subsection \<open>Denial comes from the repository only\<close>

text \<open>
  C1. \<^verbatim>\<open>CanAccess\<close> returns an error only if, in that call, the repository membership
  check \<^verbatim>\<open>channels.HasThing(chanID, key)\<close> was invoked and returned an error, and the
  error it then returns is \<open>ErrUnauthorizedAccess\<close>. Whenever the cache lookup
  \<^verbatim>\<open>hasThing\<close> is not positive (a miss of the thing cache, or a thing the channel cache
  does not report connected), the repository check is invoked, on the backend as the
  call found it, and its answer alone decides: failure denies, success grants.
\<close>

theorem CanAccess_denied_only_by_repository:
  "(fst (CanAccess ts chanID key s) = Inl e \<longrightarrow>
      e = ErrUnauthorizedAccess
      \<and> (\<exists>err. CallChannelsHasThing chanID key (Inl err)
                  \<in> set (new_calls s (snd (CanAccess ts chanID key s)))))
   \<and> (fst (hasThing ts chanID key s) = Inl e' \<longrightarrow>
      (\<exists>r. CallChannelsHasThing chanID key r
               \<in> set (new_calls s (snd (CanAccess ts chanID key s)))
            \<and> r = fst (channels_HasThing (channels ts) chanID key (backend s))
            \<and> fst (CanAccess ts chanID key s)
                = (case r of Inl err \<Rightarrow> Inl ErrUnauthorizedAccess | Inr thingID \<Rightarrow> Inr thingID)))"
  by (auto simp: CanAccess_def hasThing_def run_defs split: prod.splits sum.splits if_splits)

text \<open>
  At an unknown key on cold caches the miss falls through and the repository denies; at
  key \<open>k1\<close>, known to the thing cache but with no cached connection, the lookup is not
  positive either and the repository grants.
\<close>

theorem CanAccess_denied_only_by_repository_witness:
  "fst (CanAccess memService ''c1'' ''k2'' cold) = Inl ErrUnauthorizedAccess
   \<and> fst (hasThing memService ''c1'' ''k2'' cold) = Inl ErrNotFound
   \<and> CallChannelsHasThing ''c1'' ''k2'' (Inl ErrNotFound)
        \<in> set (new_calls cold (snd (CanAccess memService ''c1'' ''k2'' cold)))
   \<and> fst (hasThing memService ''c1'' ''k1'' (snd (Identify memService ''k1'' cold)))
        = Inl ErrUnauthorizedAccess
   \<and> fst (CanAccess memService ''c1'' ''k1'' (snd (Identify memService ''k1'' cold))) = Inr ''t1''"
  using CanAccess_denied_only_by_repository
          [of memService "''c1''" "''k2''" cold ErrUnauthorizedAccess ErrNotFound]
        CanAccess_denied_only_by_repository
          [of memService "''c1''" "''k1''" "snd (Identify memService ''k1'' cold)"
              ErrUnauthorizedAccess ErrUnauthorizedAccess]
  by (simp add: service_defs run_defs scenario_defs)

subsection \<open>Identify is a read-through lookup\<close>

text \<open>
  C2. \<^verbatim>\<open>Identify\<close> first queries the thing cache. On a hit it returns the cached
  identifier at once: the only call of the run is the cache lookup, so no repository is
  called. On a miss it queries the thing repository by key; if that fails it returns
  \<open>ErrUnauthorizedAccess\<close> and saves nothing; otherwise it saves (key, identifier) into
  the thing cache and returns the identifier.
\<close>

theorem Identify_read_through:
  "(thingCache_ID (thingCache ts) key (caches s) = (Inr ident, c1) \<longrightarrow>
      Identify ts key s
        = (Inr ident, s\<lparr>caches := c1, calls := calls s @ [CallThingCacheID key (Inr ident)]\<rparr>))
   \<and> (thingCache_ID (thingCache ts) key (caches s) = (Inl err, c1)
        \<and> things_RetrieveByKey (things ts) key (backend s) = (Inl err', r1) \<longrightarrow>
      Identify ts key s
        = (Inl ErrUnauthorizedAccess,
           s\<lparr>caches := c1, backend := r1,
             calls := calls s @ [CallThingCacheID key (Inl err),
                                 CallThingsRetrieveByKey key (Inl err')]\<rparr>))
   \<and> (thingCache_ID (thingCache ts) key (caches s) = (Inl err, c1)
        \<and> things_RetrieveByKey (things ts) key (backend s) = (Inr ident, r1) \<longrightarrow>
      Identify ts key s
        = (Inr ident,
           s\<lparr>caches := thingCache_Save (thingCache ts) key ident c1, backend := r1,
             calls := calls s @ [CallThingCacheID key (Inl err),
                                 CallThingsRetrieveByKey key (Inr ident),
                                 CallThingCacheSave key ident]\<rparr>))"
  by (simp add: Identify_def run_defs)

text \<open>
  The three cases: a hit on the warm caches, a miss on an unknown key, and a miss on
  key \<open>k1\<close> that the repository resolves.
\<close>

theorem Identify_read_through_witness:
  "fst (Identify memService ''k1'' warm) = Inr ''t1''
   \<and> new_calls warm (snd (Identify memService ''k1'' warm)) = [CallThingCacheID ''k1'' (Inr ''t1'')]
   \<and> fst (Identify memService ''k2'' cold) = Inl ErrUnauthorizedAccess
   \<and> new_calls cold (snd (Identify memService ''k2'' cold))
       = [CallThingCacheID ''k2'' (Inl ErrNotFound), CallThingsRetrieveByKey ''k2'' (Inl ErrNotFound)]
   \<and> fst (Identify memService ''k1'' cold) = Inr ''t1''
   \<and> new_calls cold (snd (Identify memService ''k1'' cold))
       = [CallThingCacheID ''k1'' (Inl ErrNotFound), CallThingsRetrieveByKey ''k1'' (Inr ''t1''),
          CallThingCacheSave ''k1'' ''t1'']
   \<and> keyCache (caches (snd (Identify memService ''k1'' cold))) ''k1'' = Some ''t1''"
  using Identify_read_through
          [of memService "''k1''" warm "''t1''" "caches warm" ErrNotFound ErrNotFound "backend warm"]
        Identify_read_through
          [of memService "''k2''" cold "''t1''" "caches cold" ErrNotFound ErrNotFound "backend cold"]
        Identify_read_through
          [of memService "''k1''" cold "''t1''" "caches cold" ErrNotFound ErrNotFound "backend cold"]
  by (simp add: service_defs run_defs scenario_defs)

subsection \<open>The fast path of CanAccess\<close>

text \<open>
  C3. If the thing cache resolves the key to an identifier and the channel cache reports
  that identifier connected to the channel, \<^verbatim>\<open>CanAccess\<close> returns that identifier; the
  calls of the run are the two cache lookups, none of them a repository call, and the
  backend is left as it was.
\<close>

theorem CanAccess_fast_path:
  "thingCache_ID (thingCache ts) key (caches s) = (Inr thingID, c1) \<Longrightarrow>
   channelCache_HasThing (channelCache ts) chanID thingID c1 = (True, c2) \<Longrightarrow>
   fst (CanAccess ts chanID key s) = Inr thingID
   \<and> new_calls s (snd (CanAccess ts chanID key s))
       = [CallThingCacheID key (Inr thingID), CallChannelCacheHasThing chanID thingID True]
   \<and> filter is_repository_call (new_calls s (snd (CanAccess ts chanID key s))) = []
   \<and> backend (snd (CanAccess ts chanID key s)) = backend s"
  by (simp add: CanAccess_def hasThing_def run_defs)

theorem CanAccess_fast_path_witness:
  "thingCache_ID (thingCache memService) ''k1'' (caches warm) = (Inr ''t1'', caches warm)
   \<and> channelCache_HasThing (channelCache memService) ''c1'' ''t1'' (caches warm) = (True, caches warm)
   \<and> fst (CanAccess memService ''c1'' ''k1'' warm) = Inr ''t1''
   \<and> filter is_repository_call (new_calls warm (snd (CanAccess memService ''c1'' ''k1'' warm))) = []"
  using CanAccess_fast_path
          [of memService "''k1''" warm "''t1''" "caches warm" "''c1''" "caches warm"]
  by (simp add: service_defs run_defs scenario_defs)

subsection \<open>Keys the repository does not resolve\<close>

text \<open>
  C4, as the specification states it, fails: after a cold \<^verbatim>\<open>Identify\<close> of \<open>k1\<close> and a
  rotation of the key of \<open>t1\<close> to \<open>k2\<close>, the repository no longer resolves \<open>k1\<close>, yet
  \<^verbatim>\<open>Identify\<close> of \<open>k1\<close> returns \<open>t1\<close> from the thing cache, while the same call on
  empty caches returns \<open>ErrUnauthorizedAccess\<close>.
\<close>

theorem Identify_stale_entry_counterexample:
  "fst (things_RetrieveByKey (things memService) ''k1'' (backend rotated)) = Inl ErrNotFound
   \<and> fst (Identify memService ''k1'' rotated) = Inr ''t1''
   \<and> fst (Identify memService ''k1'' (rotated\<lparr>caches := noCache\<rparr>)) = Inl ErrUnauthorizedAccess"
  by (simp add: service_defs run_defs scenario_defs)

text \<open>
  C4, amended. For a key that the thing repository does not resolve, \<^verbatim>\<open>Identify\<close>
  returns \<open>ErrUnauthorizedAccess\<close> whenever the thing cache has no entry for the key;
  when the thing cache has an entry, \<^verbatim>\<open>Identify\<close> returns the cached identifier
  without calling a repository.
\<close>

theorem Identify_unresolved_key:
  "fst (things_RetrieveByKey (things ts) key (backend s)) = Inl err \<Longrightarrow>
     (fst (thingCache_ID (thingCache ts) key (caches s)) = Inl err' \<longrightarrow>
        fst (Identify ts key s) = Inl ErrUnauthorizedAccess)
   \<and> (fst (thingCache_ID (thingCache ts) key (caches s)) = Inr ident \<longrightarrow>
        fst (Identify ts key s) = Inr ident
        \<and> filter is_repository_call (new_calls s (snd (Identify ts key s))) = [])"
  by (auto simp: Identify_def run_defs split: prod.splits sum.splits)

theorem Identify_unresolved_key_witness:
  "fst (things_RetrieveByKey (things memService) ''k2'' (backend cold)) = Inl ErrNotFound
   \<and> fst (thingCache_ID (thingCache memService) ''k2'' (caches cold)) = Inl ErrNotFound
   \<and> fst (Identify memService ''k2'' cold) = Inl ErrUnauthorizedAccess
   \<and> fst (things_RetrieveByKey (things memService) ''k1'' (backend (unreachable warm)))
       = Inl (ErrOther ''unavailable'')
   \<and> fst (thingCache_ID (thingCache memService) ''k1'' (caches (unreachable warm))) = Inr ''t1''
   \<and> fst (Identify memService ''k1'' (unreachable warm)) = Inr ''t1''"
  using Identify_unresolved_key [of memService "''k2''" cold ErrNotFound ErrNotFound "''t1''"]
        Identify_unresolved_key
          [of memService "''k1''" "unreachable warm" "ErrOther ''unavailable''" ErrNotFound "''t1''"]
  by (simp add: service_defs run_defs scenario_defs)

subsection \<open>The only error\<close>

text \<open>
  C5. Whatever the caches and the repositories do, the only error \<^verbatim>\<open>CanAccess\<close> and
  \<^verbatim>\<open>Identify\<close> return is \<open>ErrUnauthorizedAccess\<close>: every repository failure, whatever
  its error value, reaches the caller as \<open>ErrUnauthorizedAccess\<close>.
\<close>

theorem only_ErrUnauthorizedAccess:
  "(fst (CanAccess ts chanID key s) = Inl e \<longrightarrow> e = ErrUnauthorizedAccess)
   \<and> (fst (Identify ts key s) = Inl e \<longrightarrow> e = ErrUnauthorizedAccess)
   \<and> (fst (hasThing ts chanID key s) = Inl e1
       \<and> fst (channels_HasThing (channels ts) chanID key (backend s)) = Inl e2 \<longrightarrow>
         fst (CanAccess ts chanID key s) = Inl ErrUnauthorizedAccess)
   \<and> (fst (thingCache_ID (thingCache ts) key (caches s)) = Inl e1
       \<and> fst (things_RetrieveByKey (things ts) key (backend s)) = Inl e2 \<longrightarrow>
         fst (Identify ts key s) = Inl ErrUnauthorizedAccess)"
  by (auto simp: CanAccess_def Identify_def hasThing_def run_defs
           split: prod.splits sum.splits if_splits)

text \<open>
  The repository's \<open>ErrNotFound\<close> for an unknown key, and its failure while it cannot be
  reached, both come out as \<open>ErrUnauthorizedAccess\<close>.
\<close>

theorem only_ErrUnauthorizedAccess_witness:
  "fst (channels_HasThing (channels memService) ''c1'' ''k2'' (backend cold)) = Inl ErrNotFound
   \<and> fst (CanAccess memService ''c1'' ''k2'' cold) = Inl ErrUnauthorizedAccess
   \<and> fst (things_RetrieveByKey (things memService) ''k1'' (backend (unreachable cold)))
       = Inl (ErrOther ''unavailable'')
   \<and> fst (Identify memService ''k1'' (unreachable cold)) = Inl ErrUnauthorizedAccess"
  using only_ErrUnauthorizedAccess
          [of memService "''c1''" "''k2''" cold ErrUnauthorizedAccess ErrNotFound ErrNotFound]
        only_ErrUnauthorizedAccess
          [of memService "''c1''" "''k1''" "unreachable cold" ErrUnauthorizedAccess ErrNotFound
              "ErrOther ''unavailable''"]
  by (simp add: service_defs run_defs scenario_defs)

subsection \<open>Warm caches answer without the repository\<close>

text \<open>
  What a successful \<^verbatim>\<open>CanAccess\<close> leaves in the caches, for caches that keep what they
  are given: the key resolves to the returned identifier and the pair is reported
  connected, whether the call went through the caches or through the repository.
\<close>

lemma CanAccess_success_caches:
  assumes id_pure: "\<And>k c. snd (thingCache_ID (thingCache ts) k c) = c"
    and has_pure: "\<And>ch i c. snd (channelCache_HasThing (channelCache ts) ch i c) = c"
    and save_resolves:
      "\<And>k i c. fst (thingCache_ID (thingCache ts) k (thingCache_Save (thingCache ts) k i c))
         = Inr i"
    and connect_keeps:
      "\<And>k ch i c. fst (thingCache_ID (thingCache ts) k
                        (channelCache_Connect (channelCache ts) ch i c))
         = fst (thingCache_ID (thingCache ts) k c)"
    and connect_connected:
      "\<And>ch i c. fst (channelCache_HasThing (channelCache ts) ch i
                      (channelCache_Connect (channelCache ts) ch i c))"
    and first: "CanAccess ts chanID key s = (Inr thingID, s1)"
  shows "fst (thingCache_ID (thingCache ts) key (caches s1)) = Inr thingID
     \<and> fst (channelCache_HasThing (channelCache ts) chanID thingID (caches s1))"
proof (cases "hasThing ts chanID key s")
  case (Pair r s0)
  show ?thesis
  proof (cases r)
    case (Inr i)
    with Pair first have eq: "i = thingID" "s1 = s0"
      by (auto simp: CanAccess_def)
    from Pair Inr obtain a where a: "thingCache_ID (thingCache ts) key (caches s) = (Inr i, a)"
      by (auto simp: hasThing_def run_defs split: prod.splits sum.splits if_splits)
    with id_pure[of key "caches s"] have a': "a = caches s"
      by simp
    from Pair Inr a obtain b
      where b: "channelCache_HasThing (channelCache ts) chanID i a = (True, b)"
      by (auto simp: hasThing_def run_defs split: prod.splits sum.splits if_splits)
    with has_pure[of chanID i a] have b': "b = a"
      by simp
    from Pair Inr a b have "caches s0 = b"
      by (auto simp: hasThing_def run_defs split: prod.splits sum.splits if_splits)
    with a a' b b' eq show ?thesis
      by simp
  next
    case (Inl e)
    with Pair first obtain s2 where
      s1: "s1 = cache_write (channelCache_Connect (channelCache ts) chanID thingID)
                  (CallChannelCacheConnect chanID thingID)
                  (cache_write (thingCache_Save (thingCache ts) key thingID)
                     (CallThingCacheSave key thingID) s2)"
      by (auto simp: CanAccess_def split: prod.splits sum.splits)
    show ?thesis
      by (simp add: s1 cache_write_def connect_keeps save_resolves connect_connected)
  qed
qed

text \<open>
  A lookup through \<^verbatim>\<open>hasThing\<close> leaves the store of such caches as it was.
\<close>

lemma hasThing_caches:
  assumes id_pure: "\<And>k c. snd (thingCache_ID (thingCache ts) k c) = c"
    and has_pure: "\<And>ch i c. snd (channelCache_HasThing (channelCache ts) ch i c) = c"
  shows "caches (snd (hasThing ts chanID key s)) = caches s"
proof -
  obtain r c1 where l: "thingCache_ID (thingCache ts) key (caches s) = (r, c1)"
    by force
  with id_pure[of key "caches s"] have c1: "c1 = caches s"
    by simp
  show ?thesis
  proof (cases r)
    case (Inl e)
    with l c1 show ?thesis
      by (simp add: hasThing_def run_defs)
  next
    case (Inr i)
    obtain b c2 where g: "channelCache_HasThing (channelCache ts) chanID i (caches s) = (b, c2)"
      by force
    with has_pure[of chanID i "caches s"] have "c2 = caches s"
      by simp
    with l c1 Inr g show ?thesis
      by (simp add: hasThing_def run_defs)
  qed
qed

text \<open>
  C6. Let the caches keep what they are given (a lookup changes nothing, a saved key
  resolves to the saved identifier, marking a connection changes no key, a pair marked
  connected is reported connected). After a \<^verbatim>\<open>CanAccess\<close> that succeeded with an
  identifier, both caches hold the entry: the thing cache resolves the key to that
  identifier and the channel cache reports the pair connected. When the cache lookup of
  that first call was not positive, the call populated them: its run ends with the
  repository's answer, \<^verbatim>\<open>thingCache.Save(key, thingID)\<close> and
  \<^verbatim>\<open>channelCache.Connect(chanID, thingID)\<close>, and the cache store it leaves is the
  store it found with that save and that connect applied. A second \<^verbatim>\<open>CanAccess\<close> of the
  same channel and key, through the same caches, then returns the same identifier; its
  calls are exactly the two positive cache lookups, none of them a repository call, and
  it leaves the cache store as it is, whatever the users client and the repositories of
  the second call are and whatever state the backend is in (so also when every
  repository call fails).
\<close>

theorem CanAccess_again_without_repository:
  assumes id_pure: "\<And>k c. snd (thingCache_ID (thingCache ts) k c) = c"
    and has_pure: "\<And>ch i c. snd (channelCache_HasThing (channelCache ts) ch i c) = c"
    and save_resolves:
      "\<And>k i c. fst (thingCache_ID (thingCache ts) k (thingCache_Save (thingCache ts) k i c))
         = Inr i"
    and connect_keeps:
      "\<And>k ch i c. fst (thingCache_ID (thingCache ts) k
                        (channelCache_Connect (channelCache ts) ch i c))
         = fst (thingCache_ID (thingCache ts) k c)"
    and connect_connected:
      "\<And>ch i c. fst (channelCache_HasThing (channelCache ts) ch i
                      (channelCache_Connect (channelCache ts) ch i c))"
    and same_caches: "thingCache ts' = thingCache ts" "channelCache ts' = channelCache ts"
    and first: "CanAccess ts chanID key s = (Inr thingID, s1)"
  shows "fst (thingCache_ID (thingCache ts) key (caches s1)) = Inr thingID
     \<and> fst (channelCache_HasThing (channelCache ts) chanID thingID (caches s1))
     \<and> (fst (hasThing ts chanID key s) = Inl e \<longrightarrow>
          caches s1
            = channelCache_Connect (channelCache ts) chanID thingID
                (thingCache_Save (thingCache ts) key thingID (caches s))
          \<and> (\<exists>pre. new_calls s s1
                = pre @ [CallChannelsHasThing chanID key (Inr thingID),
                         CallThingCacheSave key thingID,
                         CallChannelCacheConnect chanID thingID]))
     \<and> fst (CanAccess ts' chanID key (s1\<lparr>backend := r'\<rparr>)) = Inr thingID
     \<and> new_calls (s1\<lparr>backend := r'\<rparr>) (snd (CanAccess ts' chanID key (s1\<lparr>backend := r'\<rparr>)))
         = [CallThingCacheID key (Inr thingID), CallChannelCacheHasThing chanID thingID True]
     \<and> filter is_repository_call
          (new_calls (s1\<lparr>backend := r'\<rparr>)
             (snd (CanAccess ts' chanID key (s1\<lparr>backend := r'\<rparr>)))) = []
     \<and> caches (snd (CanAccess ts' chanID key (s1\<lparr>backend := r'\<rparr>))) = caches s1"
proof -
  from CanAccess_success_caches
         [OF id_pure has_pure save_resolves connect_keeps connect_connected first]
  have k: "fst (thingCache_ID (thingCache ts) key (caches s1)) = Inr thingID"
    and m: "fst (channelCache_HasThing (channelCache ts) chanID thingID (caches s1))"
    by simp_all
  from k id_pure[of key "caches s1"]
  have k': "thingCache_ID (thingCache ts) key (caches s1) = (Inr thingID, caches s1)"
    by (simp add: prod_eq_iff)
  from m has_pure[of chanID thingID "caches s1"]
  have m': "channelCache_HasThing (channelCache ts) chanID thingID (caches s1)
              = (True, caches s1)"
    by (simp add: prod_eq_iff)
  have populated:
    "caches s1
       = channelCache_Connect (channelCache ts) chanID thingID
           (thingCache_Save (thingCache ts) key thingID (caches s))
     \<and> (\<exists>pre. new_calls s s1
           = pre @ [CallChannelsHasThing chanID key (Inr thingID),
                    CallThingCacheSave key thingID,
                    CallChannelCacheConnect chanID thingID])"
    if miss: "fst (hasThing ts chanID key s) = Inl e"
  proof -
    obtain s0 where h: "hasThing ts chanID key s = (Inl e, s0)"
      using miss by (cases "hasThing ts chanID key s") simp
    from hasThing_caches[OF id_pure has_pure, of chanID key s] h
    have c0: "caches s0 = caches s"
      by simp
    have "\<exists>evs. calls s0 = calls s @ evs"
      using h by (auto simp: hasThing_def run_defs split: prod.splits sum.splits if_splits)
    then obtain evs where evs: "calls s0 = calls s @ evs"
      by blast
    obtain a r1 where r: "channels_HasThing (channels ts) chanID key (backend s0) = (a, r1)"
      by force
    from first h r have a: "a = Inr thingID"
      by (auto simp: CanAccess_def run_defs split: sum.splits)
    from first h r a
    have s1:
      "caches s1 = channelCache_Connect (channelCache ts) chanID thingID
                     (thingCache_Save (thingCache ts) key thingID (caches s0))"
      "calls s1 = calls s0 @ [CallChannelsHasThing chanID key (Inr thingID),
                              CallThingCacheSave key thingID,
                              CallChannelCacheConnect chanID thingID]"
      by (auto simp: CanAccess_def run_defs)
    show ?thesis
      by (simp add: s1 c0 evs new_calls_def)
  qed
  have second:
    "fst (CanAccess ts' chanID key (s1\<lparr>backend := r'\<rparr>)) = Inr thingID
     \<and> new_calls (s1\<lparr>backend := r'\<rparr>) (snd (CanAccess ts' chanID key (s1\<lparr>backend := r'\<rparr>)))
         = [CallThingCacheID key (Inr thingID), CallChannelCacheHasThing chanID thingID True]
     \<and> caches (snd (CanAccess ts' chanID key (s1\<lparr>backend := r'\<rparr>))) = caches s1"
    by (simp add: CanAccess_def hasThing_def run_defs same_caches k' m')
  from k m populated second show ?thesis
    by simp
qed

text \<open>
  The scenario of the specification: the cold caches hold nothing; the cold call finds
  no key, succeeds through the repository and leaves both entries in the warm caches;
  the second call, with the repositories unreachable, succeeds by the two lookups.
\<close>

theorem CanAccess_again_without_repository_witness:
  "keyCache (caches cold) ''k1'' = None
   \<and> (''c1'', ''t1'') \<notin> membershipCache (caches cold)
   \<and> fst (hasThing memService ''c1'' ''k1'' cold) = Inl ErrNotFound
   \<and> CanAccess memService ''c1'' ''k1'' cold = (Inr ''t1'', warm)
   \<and> new_calls cold warm
       = [CallThingCacheID ''k1'' (Inl ErrNotFound),
          CallChannelsHasThing ''c1'' ''k1'' (Inr ''t1''),
          CallThingCacheSave ''k1'' ''t1'',
          CallChannelCacheConnect ''c1'' ''t1'']
   \<and> keyCache (caches warm) ''k1'' = Some ''t1''
   \<and> (''c1'', ''t1'') \<in> membershipCache (caches warm)
   \<and> fst (channels_HasThing (channels memService) ''c1'' ''k1'' (backend (unreachable warm)))
       = Inl (ErrOther ''unavailable'')
   \<and> fst (CanAccess memService ''c1'' ''k1'' (unreachable warm)) = Inr ''t1''
   \<and> new_calls (unreachable warm) (snd (CanAccess memService ''c1'' ''k1'' (unreachable warm)))
       = [CallThingCacheID ''k1'' (Inr ''t1''), CallChannelCacheHasThing ''c1'' ''t1'' True]"
proof -
  have evaluated:
    "keyCache (caches cold) ''k1'' = None
     \<and> (''c1'', ''t1'') \<notin> membershipCache (caches cold)
     \<and> fst (hasThing memService ''c1'' ''k1'' cold) = Inl ErrNotFound
     \<and> new_calls cold warm
         = [CallThingCacheID ''k1'' (Inl ErrNotFound),
            CallChannelsHasThing ''c1'' ''k1'' (Inr ''t1''),
            CallThingCacheSave ''k1'' ''t1'',
            CallChannelCacheConnect ''c1'' ''t1'']
     \<and> keyCache (caches warm) ''k1'' = Some ''t1''
     \<and> (''c1'', ''t1'') \<in> membershipCache (caches warm)
     \<and> fst (channels_HasThing (channels memService) ''c1'' ''k1'' (backend (unreachable warm)))
         = Inl (ErrOther ''unavailable'')"
    by (simp add: service_defs run_defs scenario_defs)
  from CanAccess_again_without_repository
         [where ts = memService and ts' = memService and e = ErrNotFound
            and r' = "(backend warm)\<lparr>reachable := False\<rparr>",
          OF mem_ID_pure mem_HasThing_pure mem_Save_resolves mem_Connect_keeps_keys
             mem_Connect_connected refl refl cold_CanAccess]
  show ?thesis
    using cold_CanAccess evaluated by (simp add: unreachable_def)
qed

subsection \<open>Invalidation of a membership entry\<close>





subsection \<open>The mutation paths\<close>

text \<open>
  C8, as the specification states it, fails: with the warm caches and the repositories
  unreachable, \<^verbatim>\<open>Disconnect\<close> removes the membership cache entry of (\<open>c1\<close>, \<open>t1\<close>) and
  only then calls the repository, whose mutation fails; the thing stays connected in the
  repository and the caller gets the repository's error.
\<close>

theorem Disconnect_invalidates_first_counterexample:
  "(''c1'', ''t1'') \<in> membershipCache (caches (unreachable warm))
   \<and> fst (Disconnect memService ''tok'' ''c1'' ''t1'' (unreachable warm))
       = Some (ErrOther ''unavailable'')
   \<and> new_calls (unreachable warm)
        (snd (Disconnect memService ''tok'' ''c1'' ''t1'' (unreachable warm)))
       = [CallUsersIdentify ''tok'' (Inr ''alice''),
          CallChannelCacheDisconnect ''c1'' ''t1'',
          CallChannelsDisconnect ''alice'' ''c1'' ''t1'' (Some (ErrOther ''unavailable''))]
   \<and> (''c1'', ''t1'')
        \<notin> membershipCache
            (caches (snd (Disconnect memService ''tok'' ''c1'' ''t1'' (unreachable warm))))
   \<and> (''c1'', ''t1'')
        \<in> connections
            (backend (snd (Disconnect memService ''tok'' ''c1'' ''t1'' (unreachable warm))))"
  by (simp add: service_defs run_defs scenario_defs)

text \<open>
  C8, amended. Once the token's owner is identified, each mutation path performs its
  cache invalidation before it calls the repository mutation, hence before it returns
  success to its caller, and returns what the repository mutation returns:
  \<^verbatim>\<open>Disconnect\<close> calls \<^verbatim>\<open>channelCache.Disconnect(chanID, thingID)\<close>, \<^verbatim>\<open>RemoveThing\<close>
  calls \<^verbatim>\<open>thingCache.Remove(id)\<close> and \<^verbatim>\<open>RemoveChannel\<close> calls \<^verbatim>\<open>channelCache.Remove(id)\<close>,
  and the cache store after the call is the invalidated one whether the repository
  mutation succeeds or not. When the owner is not identified, the path returns
  \<open>ErrUnauthorizedAccess\<close>, calls neither the cache nor the repository and leaves the
  cache store as it was.
\<close>

theorem mutation_invalidates_before_repository:
  "(users_Identify (users ts) token (backend s) = (Inr owner, r1) \<longrightarrow>
      (let out = Disconnect ts token chanID thingID s;
           res = fst (channels_Disconnect (channels ts) owner chanID thingID r1)
       in fst out = res
          \<and> new_calls s (snd out)
              = [CallUsersIdentify token (Inr owner),
                 CallChannelCacheDisconnect chanID thingID,
                 CallChannelsDisconnect owner chanID thingID res]
          \<and> caches (snd out)
              = channelCache_Disconnect (channelCache ts) chanID thingID (caches s))
    \<and> (let out = RemoveThing ts token ident s;
           res = fst (things_Remove (things ts) owner ident r1)
       in fst out = res
          \<and> new_calls s (snd out)
              = [CallUsersIdentify token (Inr owner),
                 CallThingCacheRemove ident,
                 CallThingsRemove owner ident res]
          \<and> caches (snd out) = thingCache_Remove (thingCache ts) ident (caches s))
    \<and> (let out = RemoveChannel ts token ident s;
           res = fst (channels_Remove (channels ts) owner ident r1)
       in fst out = res
          \<and> new_calls s (snd out)
              = [CallUsersIdentify token (Inr owner),
                 CallChannelCacheRemove ident,
                 CallChannelsRemove owner ident res]
          \<and> caches (snd out) = channelCache_Remove (channelCache ts) ident (caches s)))
   \<and> (users_Identify (users ts) token (backend s) = (Inl err, r1) \<longrightarrow>
      (let out = Disconnect ts token chanID thingID s
       in fst out = Some ErrUnauthorizedAccess
          \<and> new_calls s (snd out) = [CallUsersIdentify token (Inl err)]
          \<and> caches (snd out) = caches s)
    \<and> (let out = RemoveThing ts token ident s
       in fst out = Some ErrUnauthorizedAccess
          \<and> new_calls s (snd out) = [CallUsersIdentify token (Inl err)]
          \<and> caches (snd out) = caches s)
    \<and> (let out = RemoveChannel ts token ident s
       in fst out = Some ErrUnauthorizedAccess
          \<and> new_calls s (snd out) = [CallUsersIdentify token (Inl err)]
          \<and> caches (snd out) = caches s))"
  by (simp add: Disconnect_def RemoveThing_def RemoveChannel_def run_defs Let_def
           split: prod.splits)

text \<open>
  On the warm caches the owner's \<^verbatim>\<open>Disconnect\<close>, \<^verbatim>\<open>RemoveThing\<close> and \<^verbatim>\<open>RemoveChannel\<close>
  succeed and leave no entry behind; with an unknown token \<^verbatim>\<open>Disconnect\<close> is refused and
  the entry stays.
\<close>

theorem mutation_invalidates_before_repository_witness:
  "fst (Disconnect memService ''tok'' ''c1'' ''t1'' warm) = None
   \<and> new_calls warm (snd (Disconnect memService ''tok'' ''c1'' ''t1'' warm))
       = [CallUsersIdentify ''tok'' (Inr ''alice''),
          CallChannelCacheDisconnect ''c1'' ''t1'',
          CallChannelsDisconnect ''alice'' ''c1'' ''t1'' None]
   \<and> (''c1'', ''t1'')
        \<notin> membershipCache (caches (snd (Disconnect memService ''tok'' ''c1'' ''t1'' warm)))
   \<and> fst (RemoveThing memService ''tok'' ''t1'' warm) = None
   \<and> keyCache (caches (snd (RemoveThing memService ''tok'' ''t1'' warm))) ''k1'' = None
   \<and> fst (RemoveChannel memService ''tok'' ''c1'' warm) = None
   \<and> (''c1'', ''t1'')
        \<notin> membershipCache (caches (snd (RemoveChannel memService ''tok'' ''c1'' warm)))
   \<and> fst (Disconnect memService ''nobody'' ''c1'' ''t1'' warm) = Some ErrUnauthorizedAccess
   \<and> (''c1'', ''t1'')
        \<in> membershipCache (caches (snd (Disconnect memService ''nobody'' ''c1'' ''t1'' warm)))"
  using mutation_invalidates_before_repository
          [of memService "''tok''" warm "''alice''" "backend warm" "''c1''" "''t1''" "''t1''"
              ErrUnauthorizedAccess]
        mutation_invalidates_before_repository
          [of memService "''tok''" warm "''alice''" "backend warm" "''c1''" "''t1''" "''c1''"
              ErrUnauthorizedAccess]
        mutation_invalidates_before_repository
          [of memService "''nobody''" warm "''alice''" "backend warm" "''c1''" "''t1''" "''t1''"
              ErrUnauthorizedAccess]
  by (simp add: service_defs run_defs scenario_defs)

subsection \<open>Population of the caches\<close>

text \<open>
  C9. In a run of \<^verbatim>\<open>Identify\<close>, a call \<^verbatim>\<open>thingCache.Save(k, i)\<close> is made only for the
  key of the call and the identifier the thing repository returned for that key in the
  same run, as the call right after the repository's answer; \<^verbatim>\<open>Identify\<close> never calls
  \<^verbatim>\<open>channelCache.Connect\<close>. In a run of \<^verbatim>\<open>CanAccess\<close>, \<^verbatim>\<open>thingCache.Save\<close> and
  \<^verbatim>\<open>channelCache.Connect\<close> are called only for the key and channel of the call and the
  identifier the channel repository returned for them in the same run: the run ends with
  the repository's answer, the save and the connect, in this order, and no cache is
  written before them.
\<close>

theorem cache_population_after_confirmation:
  "(CallThingCacheSave k i \<in> set (new_calls s (snd (Identify ts key s))) \<longrightarrow>
      k = key
      \<and> fst (things_RetrieveByKey (things ts) key (backend s)) = Inr i
      \<and> (\<exists>err. new_calls s (snd (Identify ts key s))
            = [CallThingCacheID key (Inl err),
               CallThingsRetrieveByKey key (Inr i),
               CallThingCacheSave key i]))
   \<and> CallChannelCacheConnect c i \<notin> set (new_calls s (snd (Identify ts key s)))
   \<and> (CallThingCacheSave k i \<in> set (new_calls s (snd (CanAccess ts chanID key s))) \<longrightarrow>
        k = key)
   \<and> (CallChannelCacheConnect c i \<in> set (new_calls s (snd (CanAccess ts chanID key s))) \<longrightarrow>
        c = chanID)
   \<and> (CallThingCacheSave k i \<in> set (new_calls s (snd (CanAccess ts chanID key s)))
       \<or> CallChannelCacheConnect c i \<in> set (new_calls s (snd (CanAccess ts chanID key s))) \<longrightarrow>
      fst (channels_HasThing (channels ts) chanID key (backend s)) = Inr i
      \<and> (\<exists>pre. new_calls s (snd (CanAccess ts chanID key s))
            = pre @ [CallChannelsHasThing chanID key (Inr i),
                     CallThingCacheSave key i,
                     CallChannelCacheConnect chanID i]
            \<and> filter is_cache_write pre = []))"
  by (auto simp: CanAccess_def Identify_def hasThing_def run_defs
           split: prod.splits sum.splits if_splits)

theorem cache_population_after_confirmation_witness:
  "CallThingCacheSave ''k1'' ''t1'' \<in> set (new_calls cold (snd (Identify memService ''k1'' cold)))
   \<and> fst (things_RetrieveByKey (things memService) ''k1'' (backend cold)) = Inr ''t1''
   \<and> CallThingCacheSave ''k1'' ''t1''
        \<in> set (new_calls cold (snd (CanAccess memService ''c1'' ''k1'' cold)))
   \<and> CallChannelCacheConnect ''c1'' ''t1''
        \<in> set (new_calls cold (snd (CanAccess memService ''c1'' ''k1'' cold)))
   \<and> fst (channels_HasThing (channels memService) ''c1'' ''k1'' (backend cold)) = Inr ''t1''
   \<and> new_calls cold (snd (CanAccess memService ''c1'' ''k1'' cold))
       = [CallThingCacheID ''k1'' (Inl ErrNotFound)]
         @ [CallChannelsHasThing ''c1'' ''k1'' (Inr ''t1''),
            CallThingCacheSave ''k1'' ''t1'',
            CallChannelCacheConnect ''c1'' ''t1'']"
  using cache_population_after_confirmation
          [of "''k1''" "''t1''" cold memService "''k1''" "''c1''" "''c1''"]
  by (simp add: service_defs run_defs scenario_defs)

subsection \<open>The error path writes no cache\<close>

text \<open>
  C10. Whenever \<^verbatim>\<open>Identify\<close> or \<^verbatim>\<open>CanAccess\<close> returns an error, the run has made no
  cache write: no \<^verbatim>\<open>thingCache.Save\<close>, no \<^verbatim>\<open>channelCache.Connect\<close> (and no \<^verbatim>\<open>Remove\<close> or
  \<^verbatim>\<open>Disconnect\<close> of a cache) is among its calls. For caches whose lookups leave the store
  as it was, the cache store after the call is the one before it.
\<close>

theorem error_path_writes_no_cache:
  "(fst (Identify ts key s) = Inl e \<longrightarrow>
      filter is_cache_write (new_calls s (snd (Identify ts key s))) = []
      \<and> ((\<forall>k c. snd (thingCache_ID (thingCache ts) k c) = c) \<longrightarrow>
           caches (snd (Identify ts key s)) = caches s))
   \<and> (fst (CanAccess ts chanID key s) = Inl e \<longrightarrow>
      filter is_cache_write (new_calls s (snd (CanAccess ts chanID key s))) = []
      \<and> ((\<forall>k c. snd (thingCache_ID (thingCache ts) k c) = c)
          \<and> (\<forall>ch i c. snd (channelCache_HasThing (channelCache ts) ch i c) = c) \<longrightarrow>
           caches (snd (CanAccess ts chanID key s)) = caches s))"
proof -
  have ident: "caches (snd (Identify ts key s)) = caches s"
    if "fst (Identify ts key s) = Inl e" "\<forall>k c. snd (thingCache_ID (thingCache ts) k c) = c"
  proof -
    obtain r c1 where l: "thingCache_ID (thingCache ts) key (caches s) = (r, c1)"
      by force
    with that(2) have "c1 = caches s"
      by (metis snd_conv)
    with l that(1) show ?thesis
      by (auto simp: Identify_def run_defs split: prod.splits sum.splits)
  qed
  have access: "caches (snd (CanAccess ts chanID key s)) = caches s"
    if denied: "fst (CanAccess ts chanID key s) = Inl e"
      and pure_id: "\<forall>k c. snd (thingCache_ID (thingCache ts) k c) = c"
      and pure_has: "\<forall>ch i c. snd (channelCache_HasThing (channelCache ts) ch i c) = c"
  proof -
    obtain r c1 where l: "thingCache_ID (thingCache ts) key (caches s) = (r, c1)"
      by force
    with pure_id have c1: "c1 = caches s"
      by (metis snd_conv)
    have h: "c2 = caches s"
      if "channelCache_HasThing (channelCache ts) chanID i (caches s) = (b, c2)" for i b c2
      using that pure_has by (metis snd_conv)
    from l c1 h denied show ?thesis
      by (auto simp: CanAccess_def hasThing_def run_defs split: prod.splits sum.splits if_splits)
  qed
  have writes:
    "fst (Identify ts key s) = Inl e \<longrightarrow>
       filter is_cache_write (new_calls s (snd (Identify ts key s))) = []"
    "fst (CanAccess ts chanID key s) = Inl e \<longrightarrow>
       filter is_cache_write (new_calls s (snd (CanAccess ts chanID key s))) = []"
    by (auto simp: CanAccess_def Identify_def hasThing_def run_defs
             split: prod.splits sum.splits if_splits)
  from ident access writes show ?thesis
    by blast
qed

text \<open>
  A denied \<^verbatim>\<open>CanAccess\<close> and a denied \<^verbatim>\<open>Identify\<close> of an unknown key leave the warm
  caches as they were.
\<close>

theorem error_path_writes_no_cache_witness:
  "fst (Identify memService ''k2'' warm) = Inl ErrUnauthorizedAccess
   \<and> filter is_cache_write (new_calls warm (snd (Identify memService ''k2'' warm))) = []
   \<and> caches (snd (Identify memService ''k2'' warm)) = caches warm
   \<and> fst (CanAccess memService ''c1'' ''k2'' warm) = Inl ErrUnauthorizedAccess
   \<and> filter is_cache_write (new_calls warm (snd (CanAccess memService ''c1'' ''k2'' warm))) = []
   \<and> caches (snd (CanAccess memService ''c1'' ''k2'' warm)) = caches warm"
proof -
  have denied:
    "fst (Identify memService ''k2'' warm) = Inl ErrUnauthorizedAccess"
    "fst (CanAccess memService ''c1'' ''k2'' warm) = Inl ErrUnauthorizedAccess"
    by (simp_all add: service_defs run_defs scenario_defs)
  from error_path_writes_no_cache
         [of memService "''k2''" warm ErrUnauthorizedAccess "''c1''"]
  show ?thesis
    using denied mem_ID_pure mem_HasThing_pure by simp
qed

end
